theory Spec2Isabelle
  imports Complex_Main
begin

section \<open>Python values used by importYAMLJSONMesh\<close>

text \<open>
  The module raises nothing itself; every failure is an exception of a builtin:
  \<open>KeyError\<close> from a dictionary lookup, \<open>ValueError\<close> from \<open>int(k)\<close>, \<open>IOError\<close> from
  opening a file. A function that may raise returns \<open>py_error + 'a\<close>, \<open>Inl\<close> the
  exception.
\<close>

datatype py_error = KeyError | ValueError | IOError

text \<open>
  A dictionary key. The keys of \<open>convert_femmesh_to_dict\<close> are integers, the keys a
  JSON file gives back are strings; \<open>int(k)\<close> accepts both. Keys of other types
  (floats, booleans, \<open>None\<close>, which only a YAML file can hold) are outside the model.
\<close>

datatype pykey = IntKey int | StrKey string

text \<open>
  A dictionary keeps its keys in the order of their first insertion: an association
  list. \<open>setitem d k v\<close> is \<open>d[k] = v\<close>: it replaces the value of a key that is there
  and appends a key that is not. \<open>py_dict ps\<close> is \<open>dict(ps)\<close> of a list of pairs: the
  pairs are stored from left to right, so of two pairs with one key the later wins.
\<close>

fun setitem :: "('k \<times> 'v) list \<Rightarrow> 'k \<Rightarrow> 'v \<Rightarrow> ('k \<times> 'v) list" where
  "setitem [] k v = [(k, v)]"
| "setitem ((k', v') # d) k v =
     (if k' = k then (k', v) # d else (k', v') # setitem d k v)"

definition py_dict :: "('k \<times> 'v) list \<Rightarrow> ('k \<times> 'v) list" where
  "py_dict ps = foldl (\<lambda>d (k, v). setitem d k v) [] ps"

subsection \<open>\<open>str.lower\<close>\<close>

text \<open>
  Strings are byte strings (UTF-8). \<open>lower\<close> maps the letters A to Z to a to z and
  leaves every other byte alone. No character outside ASCII lowers to one of the
  letters of \<open>groups\<close>, so the test \<open>type_key.lower() != "groups"\<close> is decided as
  Python decides it.
\<close>

definition lower_char :: "char \<Rightarrow> char" where
  "lower_char c =
     (let n = (of_char c :: nat) in if 65 \<le> n \<and> n \<le> 90 then char_of (n + 32) else c)"

definition lower :: "string \<Rightarrow> string" where
  "lower s = map lower_char s"

subsection \<open>\<open>int(k)\<close> and \<open>str(i)\<close>\<close>

text \<open>
  \<open>int(s)\<close> of a string, as Python 3 reads it in base 10: white space around the
  number is dropped, one sign may lead, then come decimal digits, where single
  underscores may stand between two digits. Anything else raises \<open>ValueError\<close>.
  Digits and white space outside ASCII and the interpreter's limit on the number of
  digits are not modelled.
\<close>

definition is_space :: "char \<Rightarrow> bool" where
  "is_space c = (let n = (of_char c :: nat) in (9 \<le> n \<and> n \<le> 13) \<or> (28 \<le> n \<and> n \<le> 32))"

definition is_digit :: "char \<Rightarrow> bool" where
  "is_digit c = (let n = (of_char c :: nat) in 48 \<le> n \<and> n \<le> 57)"

definition digit_val :: "char \<Rightarrow> nat" where
  "digit_val c = of_char c - 48"

definition digit_char :: "nat \<Rightarrow> char" where
  "digit_char d = char_of (48 + d)"

definition strip :: "string \<Rightarrow> string" where
  "strip s = rev (dropWhile is_space (rev (dropWhile is_space s)))"

fun parse_digits :: "nat \<Rightarrow> string \<Rightarrow> nat option" where
  "parse_digits acc [] = Some acc"
| "parse_digits acc (c # cs) =
     (if is_digit c then parse_digits (10 * acc + digit_val c) cs
      else if c = CHR ''_'' then
        (case cs of
           [] \<Rightarrow> None
         | d # ds \<Rightarrow> if is_digit d then parse_digits (10 * acc + digit_val d) ds else None)
      else None)"

definition parse_nat :: "string \<Rightarrow> nat option" where
  "parse_nat s =
     (case s of
        [] \<Rightarrow> None
      | c # cs \<Rightarrow> if is_digit c then parse_digits (digit_val c) cs else None)"

definition parse_int :: "string \<Rightarrow> int option" where
  "parse_int s =
     (case strip s of
        [] \<Rightarrow> None
      | c # cs \<Rightarrow>
          if c = CHR ''-'' then map_option (\<lambda>n. - int n) (parse_nat cs)
          else if c = CHR ''+'' then map_option int (parse_nat cs)
          else map_option int (parse_nat (c # cs)))"

fun py_int :: "pykey \<Rightarrow> py_error + int" where
  "py_int (IntKey i) = Inr i"
| "py_int (StrKey s) = (case parse_int s of None \<Rightarrow> Inl ValueError | Some i \<Rightarrow> Inr i)"

text \<open>\<open>str(i)\<close> of an integer: its decimal digits, after a minus sign when negative.\<close>

fun digits10 :: "nat \<Rightarrow> string" where
  "digits10 n = (if n < 10 then [digit_char n] else digits10 (n div 10) @ [digit_char (n mod 10)])"

declare digits10.simps [simp del]

definition py_str :: "int \<Rightarrow> string" where
  "py_str i = (if i < 0 then CHR ''-'' # digits10 (nat (- i)) else digits10 (nat i))"

section \<open>The record: \<open>mesh_data\<close>\<close>

text \<open>
  A value of a bucket: the coordinates of a node, the node tuple of an element, or
  the name and the members of a group. Tuples and lists are both lists here. The
  coordinates are never inspected, so their type is left open.
\<close>

datatype 'c bucket_value =
    Coordinates 'c 'c 'c
  | ElementNodes "int list"
  | GroupEntry string "int list"

type_synonym 'v bucket = "(pykey \<times> 'v) list"
type_synonym 'v mesh_data = "(string \<times> 'v bucket) list"

section \<open>\<open>convert_raw_data_to_mesh_data\<close>\<close>

text \<open>
  The list comprehension \<open>[(int(k), v) for (k, v) in type_dict.items()]\<close>: the first
  key that \<open>int\<close> refuses raises.
\<close>

fun int_keys :: "'v bucket \<Rightarrow> py_error + 'v bucket" where
  "int_keys [] = Inr []"
| "int_keys ((k, v) # kvs) =
     (case py_int k of
        Inl e \<Rightarrow> Inl e
      | Inr i \<Rightarrow>
          (case int_keys kvs of
             Inl e \<Rightarrow> Inl e
           | Inr ps \<Rightarrow> Inr ((IntKey i, v) # ps)))"

text \<open>The loop over \<open>raw_mesh_data.items()\<close>, with \<open>mesh_data\<close> as its state.\<close>

fun raw_loop :: "'v mesh_data \<Rightarrow> 'v mesh_data \<Rightarrow> py_error + 'v mesh_data" where
  "raw_loop [] mesh_data = Inr mesh_data"
| "raw_loop ((type_key, type_dict) # rest) mesh_data =
     (if lower type_key \<noteq> ''groups'' then
        (case int_keys type_dict of
           Inl e \<Rightarrow> Inl e
         | Inr ps \<Rightarrow> raw_loop rest (setitem mesh_data type_key (py_dict ps)))
      else raw_loop rest mesh_data)"

definition convert_raw_data_to_mesh_data :: "'v mesh_data \<Rightarrow> py_error + 'v mesh_data" where
  "convert_raw_data_to_mesh_data raw_mesh_data = raw_loop raw_mesh_data []"

section \<open>\<open>convert_femmesh_to_dict\<close>\<close>

text \<open>
  What the converter reads of a \<open>FemMesh\<close>: the element identifiers of its edges,
  faces and volumes, \<open>getElementNodes\<close>, the dictionary \<open>Nodes\<close> from node
  identifiers to vectors, the group identifiers, \<open>getGroupName\<close> and
  \<open>getGroupElements\<close>. The fields \<open>x\<close>, \<open>y\<close>, \<open>z\<close> of a vector are \<open>vx\<close>, \<open>vy\<close>, \<open>vz\<close>.
\<close>

datatype 'c vector = Vector (vx: 'c) (vy: 'c) (vz: 'c)

record 'c femmesh =
  Edges :: "int list"
  Faces :: "int list"
  Volumes :: "int list"
  getElementNodes :: "int \<Rightarrow> int list"
  Nodes :: "(int \<times> 'c vector) list"
  Groups :: "int list"
  getGroupName :: "int \<Rightarrow> string"
  getGroupElements :: "int \<Rightarrow> int list"

text \<open>
  The twelve local lists. The three tables hold references to them, and
  \<open>len_to_edge[len(t)].append((e, t))\<close> changes the list a table entry refers to: the
  lists live in a store, the tables map a length to the name of a list.
\<close>

datatype elem_list =
  seg2 | seg3 | tri3 | tri6 | quad4 | quad8 | tet4 | tet10 | hex8 | hex20 | pent6 | pent15

type_synonym elem_store = "elem_list \<Rightarrow> (int \<times> int list) list"

definition len_to_edge :: "nat \<rightharpoonup> elem_list" where
  "len_to_edge = [2 \<mapsto> seg2, 3 \<mapsto> seg3]"

definition len_to_face :: "nat \<rightharpoonup> elem_list" where
  "len_to_face = [3 \<mapsto> tri3, 6 \<mapsto> tri6, 4 \<mapsto> quad4, 8 \<mapsto> quad8]"

definition len_to_volume :: "nat \<rightharpoonup> elem_list" where
  "len_to_volume = [4 \<mapsto> tet4, 10 \<mapsto> tet10, 8 \<mapsto> hex8, 20 \<mapsto> hex20, 6 \<mapsto> pent6, 15 \<mapsto> pent15]"

text \<open>
  One of the three loops (\<open>for e in femmesh.Edges\<close>, and the same over faces and
  volumes): a length with no entry in the table raises \<open>KeyError\<close>.
\<close>

fun analyze ::
  "(nat \<rightharpoonup> elem_list) \<Rightarrow> (int \<Rightarrow> int list) \<Rightarrow> int list \<Rightarrow> elem_store \<Rightarrow> py_error + elem_store"
where
  "analyze len_to nodes_of [] store = Inr store"
| "analyze len_to nodes_of (e # es) store =
     (let t = nodes_of e in
      case len_to (length t) of
        None \<Rightarrow> Inl KeyError
      | Some l \<Rightarrow> analyze len_to nodes_of es (store(l := store l @ [(e, t)])))"

text \<open>\<open>dict(seg2)\<close> and its eleven siblings: a list of pairs \<open>(e, t)\<close> as a bucket.\<close>

definition elem_dict :: "(int \<times> int list) list \<Rightarrow> 'c bucket_value bucket" where
  "elem_dict pairs = py_dict (map (\<lambda>(e, t). (IntKey e, ElementNodes t)) pairs)"

definition build_mesh_data :: "'c femmesh \<Rightarrow> elem_store \<Rightarrow> 'c bucket_value mesh_data" where
  "build_mesh_data femmesh store =
     [(''Nodes'', py_dict (map (\<lambda>(k, v). (IntKey k, Coordinates (vx v) (vy v) (vz v)))
                              (Nodes femmesh))),
      (''Seg2Elem'', elem_dict (store seg2)),
      (''Seg3Elem'', elem_dict (store seg3)),
      (''Tria3Elem'', elem_dict (store tri3)),
      (''Tria6Elem'', elem_dict (store tri6)),
      (''Quad4Elem'', elem_dict (store quad4)),
      (''Quad8Elem'', elem_dict (store quad8)),
      (''Tetra4Elem'', elem_dict (store tet4)),
      (''Tetra10Elem'', elem_dict (store tet10)),
      (''Hexa8Elem'', elem_dict (store hex8)),
      (''Hexa20Elem'', elem_dict (store hex20)),
      (''Penta6Elem'', elem_dict (store pent6)),
      (''Penta15Elem'', elem_dict (store pent15)),
      (''Groups'', py_dict (map (\<lambda>group_num.
                                  (IntKey group_num,
                                   GroupEntry (getGroupName femmesh group_num)
                                              (getGroupElements femmesh group_num)))
                               (Groups femmesh)))]"

definition convert_femmesh_to_dict :: "'c femmesh \<Rightarrow> py_error + 'c bucket_value mesh_data" where
  "convert_femmesh_to_dict femmesh =
     (case analyze len_to_edge (getElementNodes femmesh) (Edges femmesh) (\<lambda>l. []) of
        Inl e \<Rightarrow> Inl e
      | Inr store1 \<Rightarrow>
          (case analyze len_to_face (getElementNodes femmesh) (Faces femmesh) store1 of
             Inl e \<Rightarrow> Inl e
           | Inr store2 \<Rightarrow>
               (case analyze len_to_volume (getElementNodes femmesh) (Volumes femmesh) store2 of
                  Inl e \<Rightarrow> Inl e
                | Inr store3 \<Rightarrow> Inr (build_mesh_data femmesh store3))))"

section \<open>The text codecs\<close>

text \<open>
  Modelled from the spec: \<open>json.dump\<close>, \<open>json.load\<close>, \<open>yaml.safe_dump\<close> and \<open>yaml.load\<close>
  are library code, not code of the repository. The spec (sections 1 and 6) takes a
  codec as a black box that writes a record and reads it back without loss, every key
  of a bucket rendered as a string: that is the style \<open>AsString\<close>, with \<open>str(i)\<close> for
  an integer key. A codec that gives an integer key back as an integer is the style
  \<open>AsInteger\<close>. \<open>text_roundtrip\<close> is a load after a dump.
\<close>

datatype key_style = AsString | AsInteger

fun render_key :: "key_style \<Rightarrow> pykey \<Rightarrow> pykey" where
  "render_key AsString (IntKey i) = StrKey (py_str i)"
| "render_key AsString (StrKey s) = StrKey s"
| "render_key AsInteger k = k"

definition text_roundtrip :: "key_style \<Rightarrow> 'v mesh_data \<Rightarrow> 'v mesh_data" where
  "text_roundtrip style mesh_data =
     map (\<lambda>(name, bucket). (name, map (\<lambda>(k, v). (render_key style k, v)) bucket)) mesh_data"

section \<open>\<open>os.path\<close>\<close>

text \<open>
  \<open>os.path.split\<close> and \<open>os.path.splitext\<close> as \<open>posixpath\<close> defines them (separator \<open>/\<close>).
  \<open>rfind p c\<close> is the highest index of \<open>c\<close> in \<open>p\<close>, and \<open>-1\<close> when \<open>p\<close> has none.
\<close>

definition rfind :: "string \<Rightarrow> char \<Rightarrow> int" where
  "rfind p c =
     (if c \<in> set p then int (length p) - 1 - int (length (takeWhile (\<lambda>x. x \<noteq> c) (rev p)))
      else - 1)"

definition path_split :: "string \<Rightarrow> string \<times> string" where
  "path_split p =
     (let i = nat (rfind p (CHR ''/'') + 1);
          head = take i p;
          tail = drop i p
      in (if head \<noteq> [] \<and> head \<noteq> replicate (length head) (CHR ''/'')
          then rev (dropWhile (\<lambda>x. x = CHR ''/'') (rev head)) else head,
          tail))"

text \<open>
  \<open>splitext\<close>: the extension starts at the last dot of the last component, unless only
  dots stand between the start of that component and this dot.
\<close>

definition splitext :: "string \<Rightarrow> string \<times> string" where
  "splitext p =
     (let sepIndex = rfind p (CHR ''/'');
          dotIndex = rfind p (CHR ''.'')
      in if dotIndex > sepIndex \<and>
            list_ex (\<lambda>x. x \<noteq> CHR ''.'')
              (take (nat (dotIndex - (sepIndex + 1))) (drop (nat (sepIndex + 1)) p))
         then (take (nat dotIndex) p, drop (nat dotIndex) p)
         else (p, []))"

section \<open>\<open>export\<close> and \<open>import_yaml_json_mesh\<close>\<close>

text \<open>
  What the two entry points change: the console (the calls of
  \<open>FreeCAD.Console.PrintError\<close> and \<open>PrintMessage\<close>, in order), the files written (a
  dictionary from path to what was dumped) and the objects of the active document
  (type, name and \<open>FemMesh\<close> of every \<open>addObject\<close>).
\<close>

datatype message = PrintError string | PrintMessage string

datatype 'v file_content = JsonDump "'v mesh_data" | YamlDump "'v mesh_data"

record ('v, 'm) world =
  console :: "message list"
  files :: "(string \<times> 'v file_content) list"
  document :: "(string \<times> string \<times> 'm) list"

text \<open>
  What the module uses and does not define: the flag \<open>has_yaml\<close> set when the module
  is loaded; whether \<open>pyopen(fileString, "wt")\<close> succeeds; reading a file with
  \<open>pyopen\<close> and \<open>json.load\<close> or \<open>yaml.load\<close>; and \<open>importToolsFem.make_femmesh\<close>, whose
  result \<open>None\<close> stands for any value that is false in \<open>if femmesh\<close>.
\<close>

record ('v, 'm) env =
  has_yaml :: bool
  writable :: "string \<Rightarrow> bool"
  json_load :: "string \<Rightarrow> py_error + 'v mesh_data"
  yaml_load :: "string \<Rightarrow> py_error + 'v mesh_data"
  make_femmesh :: "'v mesh_data \<Rightarrow> py_error + 'm option"

record 'c fem_object =
  isDerivedFrom :: "string \<Rightarrow> bool"
  FemMesh :: "'c femmesh"

definition newline :: char where
  "newline = CHR 0x0A"

text \<open>
  An exception that leaves a function is the result \<open>Inl\<close>; what was printed before it
  is not kept.
\<close>

definition export ::
  "('v, 'm) env \<Rightarrow> 'c fem_object list \<Rightarrow> string \<Rightarrow> ('c bucket_value, 'm) world
     \<Rightarrow> py_error + ('c bucket_value, 'm) world"
where
  "export env objectslist fileString w =
     (if length objectslist \<noteq> 1 then
        Inr (w\<lparr>console := console w @
                 [PrintError (''This exporter can only export one object.'' @ [newline])]\<rparr>)
      else
        let obj = hd objectslist in
        if \<not> isDerivedFrom obj ''Fem::FemMeshObject'' then
          Inr (w\<lparr>console := console w @
                   [PrintError (''No FEM mesh object selected.'' @ [newline])]\<rparr>)
        else
          (case convert_femmesh_to_dict (FemMesh obj) of
             Inl e \<Rightarrow> Inl e
           | Inr mesh_data \<Rightarrow>
               if fileString \<noteq> [] then
                 let (fileName, fileExtension) = splitext fileString in
                 if lower fileExtension = ''.json'' then
                   (if writable env fileString
                    then Inr (w\<lparr>files := setitem (files w) fileString (JsonDump mesh_data)\<rparr>)
                    else Inl IOError)
                 else if (lower fileExtension = ''.yaml'' \<or> lower fileExtension = ''.yml'')
                         \<and> has_yaml env then
                   (if writable env fileString
                    then Inr (w\<lparr>files := setitem (files w) fileString (YamlDump mesh_data)\<rparr>)
                    else Inl IOError)
                 else Inr w
               else Inr w))"

definition import_yaml_json_mesh ::
  "('v, 'm) env \<Rightarrow> string \<Rightarrow> ('w, 'm) world \<Rightarrow> py_error + ('w, 'm) world"
where
  "import_yaml_json_mesh env fileString w =
     (let (filePath, fileName) = path_split fileString;
          (fileNameNoExt, fileExtension) = splitext fileName;
          loaded =
            (if lower fileExtension = ''.json'' then
               (case json_load env fileString of
                  Inl e \<Rightarrow> Inl e
                | Inr raw_mesh_data \<Rightarrow> Inr (raw_mesh_data, w))
             else if (lower fileExtension = ''.yaml'' \<or> lower fileExtension = ''.yml'')
                     \<and> has_yaml env then
               (case yaml_load env fileString of
                  Inl e \<Rightarrow> Inl e
                | Inr raw_mesh_data \<Rightarrow> Inr (raw_mesh_data, w))
             else
               Inr ([], w\<lparr>console := console w @
                          [PrintError (''Unknown extension, please select other importer.''
                                       @ [newline])]\<rparr>))
      in case loaded of
           Inl e \<Rightarrow> Inl e
         | Inr (raw_mesh_data, w1) \<Rightarrow>
             let w2 = w1\<lparr>console := console w1 @
                          [PrintMessage ''Converting indices to integer numbers ...'']\<rparr>
             in (case convert_raw_data_to_mesh_data raw_mesh_data of
                   Inl e \<Rightarrow> Inl e
                 | Inr mesh_data \<Rightarrow>
                     let w3 = w2\<lparr>console := console w2 @ [PrintMessage (''OK'' @ [newline])]\<rparr>;
                         mesh_name = fileNameNoExt
                     in (case make_femmesh env mesh_data of
                           Inl e \<Rightarrow> Inl e
                         | Inr None \<Rightarrow> Inr w3
                         | Inr (Some femmesh) \<Rightarrow>
                             Inr (w3\<lparr>document := document w3 @
                                       [(''Fem::FemMeshObject'', mesh_name, femmesh)]\<rparr>))))"

section \<open>The vocabulary of the claims\<close>

text \<open>
  The arity table of the data model: the node counts the table lists for each
  category, and the bucket it names for a category and a node count, holding the
  elements of the category with that many nodes.
\<close>

definition supported :: "'c femmesh \<Rightarrow> bool" where
  "supported femmesh \<longleftrightarrow>
     list_all (\<lambda>e. length (getElementNodes femmesh e) \<in> set [2, 3]) (Edges femmesh) \<and>
     list_all (\<lambda>f. length (getElementNodes femmesh f) \<in> set [3, 4, 6, 8]) (Faces femmesh) \<and>
     list_all (\<lambda>v. length (getElementNodes femmesh v) \<in> set [4, 6, 8, 10, 15, 20])
       (Volumes femmesh)"

definition table_bucket :: "'c femmesh \<Rightarrow> int list \<Rightarrow> nat \<Rightarrow> 'c bucket_value bucket" where
  "table_bucket femmesh category arity =
     py_dict (map (\<lambda>e. (IntKey e, ElementNodes (getElementNodes femmesh e)))
                  (filter (\<lambda>e. length (getElementNodes femmesh e) = arity) category))"

text \<open>
  A bucket counts as the group bucket when its name, in lower case, is \<open>groups\<close>;
  \<open>without_groups\<close> keeps the other buckets.
\<close>

definition is_groups :: "string \<Rightarrow> bool" where
  "is_groups name \<longleftrightarrow> lower name = ''groups''"

definition without_groups :: "'v mesh_data \<Rightarrow> 'v mesh_data" where
  "without_groups mesh_data = filter (\<lambda>(name, bucket). \<not> is_groups name) mesh_data"

fun is_int_key :: "pykey \<Rightarrow> bool" where
  "is_int_key (IntKey i) = True"
| "is_int_key (StrKey s) = False"

text \<open>
  A dictionary holds each of its keys once. A record is a dictionary of dictionaries;
  it is integer-keyed when every key of every bucket but the group bucket is an
  integer.
\<close>

definition is_dict :: "('k \<times> 'v) list \<Rightarrow> bool" where
  "is_dict d \<longleftrightarrow> distinct (map fst d)"

definition is_record :: "'v mesh_data \<Rightarrow> bool" where
  "is_record mesh_data \<longleftrightarrow> is_dict mesh_data \<and> list_all (\<lambda>(name, bucket). is_dict bucket) mesh_data"

definition int_keyed :: "'v mesh_data \<Rightarrow> bool" where
  "int_keyed mesh_data \<longleftrightarrow>
     list_all (\<lambda>(name, bucket). is_groups name \<or> list_all (\<lambda>(k, v). is_int_key k) bucket)
       mesh_data"

text \<open>
  Two records are equal up to key type when they have the same bucket names and the
  same entries, an integer key counted as the string \<open>str\<close> gives for it. Like the
  equality of dictionaries, this ignores the order of the entries.
\<close>

fun key_text :: "pykey \<Rightarrow> string" where
  "key_text (IntKey i) = py_str i"
| "key_text (StrKey s) = s"

definition entries :: "'v mesh_data \<Rightarrow> (string \<times> string \<times> 'v) list" where
  "entries mesh_data =
     concat (map (\<lambda>(name, bucket). map (\<lambda>(k, v). (name, key_text k, v)) bucket) mesh_data)"

definition equal_up_to_key_type :: "'v mesh_data \<Rightarrow> 'v mesh_data \<Rightarrow> bool" where
  "equal_up_to_key_type r r' \<longleftrightarrow>
     set (map fst r) = set (map fst r') \<and> set (entries r) = set (entries r')"

subsection \<open>The scenarios of the spec\<close>

text \<open>
  Scenario A: the edge 1 on the nodes 1, 2, the triangle 2 on the nodes 1, 2, 3, the
  tetrahedron 3 on the nodes 1 to 4, and the group 0 named Fixed that holds the edge.
  Scenario E adds the face 4 with five nodes.
\<close>

definition scenario_A :: "real femmesh" where
  "scenario_A =
     \<lparr>Edges = [1], Faces = [2], Volumes = [3],
      getElementNodes =
        (\<lambda>e. if e = 1 then [1, 2] else if e = 2 then [1, 2, 3]
              else if e = 3 then [1, 2, 3, 4] else [1, 2, 3, 4, 5]),
      Nodes = [(1, Vector 0 0 0), (2, Vector 1 0 0), (3, Vector 0 1 0), (4, Vector 0 0 1)],
      Groups = [0],
      getGroupName = (\<lambda>g. ''Fixed''),
      getGroupElements = (\<lambda>g. [1])\<rparr>"

definition scenario_A_record :: "real bucket_value mesh_data" where
  "scenario_A_record =
     [(''Nodes'',
       [(IntKey 1, Coordinates 0 0 0), (IntKey 2, Coordinates 1 0 0),
        (IntKey 3, Coordinates 0 1 0), (IntKey 4, Coordinates 0 0 1)]),
      (''Seg2Elem'', [(IntKey 1, ElementNodes [1, 2])]),
      (''Seg3Elem'', []),
      (''Tria3Elem'', [(IntKey 2, ElementNodes [1, 2, 3])]),
      (''Tria6Elem'', []),
      (''Quad4Elem'', []),
      (''Quad8Elem'', []),
      (''Tetra4Elem'', [(IntKey 3, ElementNodes [1, 2, 3, 4])]),
      (''Tetra10Elem'', []),
      (''Hexa8Elem'', []),
      (''Hexa20Elem'', []),
      (''Penta6Elem'', []),
      (''Penta15Elem'', []),
      (''Groups'', [(IntKey 0, GroupEntry ''Fixed'' [1])])]"

definition scenario_E :: "real femmesh" where
  "scenario_E = scenario_A\<lparr>Faces := [2, 4]\<rparr>"

text \<open>
  An object that carries a mesh, an object of another kind, collaborators that never
  fail, and a world in which nothing has happened yet.
\<close>

definition mesh_object :: "'c femmesh \<Rightarrow> 'c fem_object" where
  "mesh_object femmesh =
     \<lparr>isDerivedFrom = (\<lambda>t. t = ''Fem::FemMeshObject'' \<or> t = ''App::DocumentObject''),
      FemMesh = femmesh\<rparr>"

definition part_object :: "'c femmesh \<Rightarrow> 'c fem_object" where
  "part_object femmesh =
     \<lparr>isDerivedFrom = (\<lambda>t. t = ''Part::Feature'' \<or> t = ''App::DocumentObject''),
      FemMesh = femmesh\<rparr>"

definition easy_env :: "(real bucket_value, nat) env" where
  "easy_env =
     \<lparr>has_yaml = True,
      writable = (\<lambda>p. True),
      json_load = (\<lambda>p. Inr []),
      yaml_load = (\<lambda>p. Inr []),
      make_femmesh = (\<lambda>mesh_data. Inr (Some (length mesh_data)))\<rparr>"

definition new_world :: "(real bucket_value, nat) world" where
  "new_world = \<lparr>console = [], files = [], document = []\<rparr>"

text \<open>
  A raw record as a JSON file gives it: string keys everywhere, one edge and the
  group bucket.
\<close>

definition raw_example :: "real bucket_value mesh_data" where
  "raw_example =
     [(''Seg2Elem'', [(StrKey ''1'', ElementNodes [1, 2])]),
      (''Groups'', [(StrKey ''0'', GroupEntry ''Fixed'' [1])])]"

section \<open>Dictionaries\<close>

lemma setitem_fresh: "k \<notin> fst ` set d \<Longrightarrow> setitem d k v = d @ [(k, v)]"
  by (induction d) auto

lemma map_fst_setitem:
  "map fst (setitem d k v) = (if k \<in> fst ` set d then map fst d else map fst d @ [k])"
  by (induction d) (auto simp: rev_image_eqI)

lemma foldl_setitem_distinct:
  "distinct (map fst (d @ ps)) \<Longrightarrow> foldl (\<lambda>d (k, v). setitem d k v) d ps = d @ ps"
proof (induction ps arbitrary: d)
  case Nil
  then show ?case by simp
next
  case (Cons p ps)
  obtain k v where p: "p = (k, v)" by (cases p)
  from Cons.prems have fresh: "k \<notin> fst ` set d" by (auto simp: p)
  from Cons.prems have "distinct (map fst ((d @ [(k, v)]) @ ps))" by (simp add: p)
  from Cons.IH [OF this] show ?case by (simp add: p setitem_fresh [OF fresh])
qed

lemma py_dict_distinct: "distinct (map fst ps) \<Longrightarrow> py_dict ps = ps"
  using foldl_setitem_distinct [of "[]" ps] by (simp add: py_dict_def)

lemma distinct_setitem: "distinct (map fst d) \<Longrightarrow> distinct (map fst (setitem d k v))"
  by (simp add: map_fst_setitem)

lemma distinct_foldl_setitem:
  "distinct (map fst d) \<Longrightarrow> distinct (map fst (foldl (\<lambda>d (k, v). setitem d k v) d ps))"
  by (induction ps arbitrary: d) (auto simp: distinct_setitem)

lemma distinct_py_dict: "distinct (map fst (py_dict ps))"
  by (simp add: py_dict_def distinct_foldl_setitem)

lemma set_fst_setitem: "fst ` set (setitem d k v) = insert k (fst ` set d)"
proof -
  have "set (map fst (setitem d k v)) = insert k (set (map fst d))"
    by (auto simp: map_fst_setitem)
  then show ?thesis by simp
qed

lemma set_fst_foldl_setitem:
  "fst ` set (foldl (\<lambda>d (k, v). setitem d k v) d ps) = fst ` set d \<union> fst ` set ps"
proof (induction ps arbitrary: d)
  case Nil
  then show ?case by simp
next
  case (Cons p ps)
  obtain k v where p: "p = (k, v)" by (cases p)
  show ?case by (simp add: p Cons.IH set_fst_setitem)
qed

lemma set_fst_py_dict: "fst ` set (py_dict ps) = fst ` set ps"
  by (simp add: py_dict_def set_fst_foldl_setitem)

section \<open>\<open>int\<close> reads back what \<open>str\<close> writes\<close>

lemma digit_char_props:
  assumes "d < 10"
  shows "is_digit (digit_char d)" "digit_val (digit_char d) = d" "\<not> is_space (digit_char d)"
  using assms by (simp_all add: is_digit_def digit_val_def digit_char_def is_space_def of_char_of)

lemma not_digit_signs: "\<not> is_digit (CHR ''-'')" "\<not> is_space (CHR ''-'')"
  by (simp_all add: is_digit_def is_space_def)

lemma parse_digits_all_digits:
  "list_all is_digit s \<Longrightarrow>
     parse_digits acc s = Some (foldl (\<lambda>a c. 10 * a + digit_val c) acc s)"
  by (induction s arbitrary: acc) simp_all

lemma digits10_props:
  "list_all is_digit (digits10 n) \<and> digits10 n \<noteq> [] \<and> \<not> is_space (last (digits10 n)) \<and>
     foldl (\<lambda>a c. 10 * a + digit_val c) 0 (digits10 n) = n"
proof (induction n rule: digits10.induct)
  case (1 n)
  show ?case
  proof (cases "n < 10")
    case True
    then show ?thesis by (simp add: digits10.simps [of n] digit_char_props)
  next
    case False
    with 1 show ?thesis by (simp add: digits10.simps [of n] digit_char_props)
  qed
qed

lemma parse_nat_digits10: "parse_nat (digits10 n) = Some n"
proof -
  obtain c cs where s: "digits10 n = c # cs"
    using digits10_props [of n] by (cases "digits10 n") auto
  with digits10_props [of n] have d: "is_digit c" "list_all is_digit cs"
    and v: "foldl (\<lambda>a c. 10 * a + digit_val c) (digit_val c) cs = n" by simp_all
  show ?thesis by (simp add: parse_nat_def s d parse_digits_all_digits v)
qed

lemma strip_id:
  assumes "s \<noteq> []" "\<not> is_space (hd s)" "\<not> is_space (last s)"
  shows "strip s = s"
proof -
  have "dropWhile is_space s = s" using assms by (cases s) auto
  moreover have "dropWhile is_space (rev s) = rev s"
    using assms by (cases "rev s") (auto simp: hd_rev [symmetric] simp del: hd_rev)
  ultimately show ?thesis by (simp add: strip_def)
qed

lemma hd_digits10_not_space: "\<not> is_space (hd (digits10 n))"
proof -
  obtain c cs where s: "digits10 n = c # cs"
    using digits10_props [of n] by (cases "digits10 n") auto
  with digits10_props [of n] have "is_digit c" by simp
  then show ?thesis by (auto simp: s is_digit_def is_space_def Let_def)
qed

lemma hd_digits10_not_sign: "hd (digits10 n) \<noteq> CHR ''-''" "hd (digits10 n) \<noteq> CHR ''+''"
proof -
  obtain c cs where s: "digits10 n = c # cs"
    using digits10_props [of n] by (cases "digits10 n") auto
  with digits10_props [of n] have "is_digit c" by simp
  then show "hd (digits10 n) \<noteq> CHR ''-''" "hd (digits10 n) \<noteq> CHR ''+''"
    by (auto simp: s is_digit_def)
qed

lemma parse_int_py_str: "parse_int (py_str i) = Some i"
proof (cases "i < 0")
  case True
  have "strip (CHR ''-'' # digits10 (nat (- i))) = CHR ''-'' # digits10 (nat (- i))"
    using digits10_props [of "nat (- i)"] by (intro strip_id) (simp_all add: not_digit_signs)
  with True show ?thesis by (simp add: parse_int_def py_str_def parse_nat_digits10)
next
  case False
  have st: "strip (digits10 (nat i)) = digits10 (nat i)"
    using digits10_props [of "nat i"] hd_digits10_not_space [of "nat i"] by (intro strip_id) simp_all
  obtain c cs where s: "digits10 (nat i) = c # cs"
    using digits10_props [of "nat i"] by (cases "digits10 (nat i)") auto
  have "c \<noteq> CHR ''-''" "c \<noteq> CHR ''+''" using hd_digits10_not_sign [of "nat i"] by (simp_all add: s)
  moreover have "strip (c # cs) = c # cs" using st by (simp add: s)
  moreover have "parse_nat (c # cs) = Some (nat i)"
    using parse_nat_digits10 [of "nat i"] by (simp add: s)
  ultimately show ?thesis using False by (simp add: parse_int_def py_str_def s)
qed


section \<open>The normalizer\<close>

lemma py_int_error: "py_int k = Inl e \<Longrightarrow> e = ValueError"
  by (cases k) (auto split: option.splits)

lemma int_keys_error: "int_keys b = Inl e \<Longrightarrow> e = ValueError"
  by (induction b arbitrary: e) (auto split: sum.splits dest: py_int_error)


lemma int_keys_Inr:
  "int_keys b = Inr ps \<Longrightarrow>
     map snd ps = map snd b \<and>
     list_all2 (\<lambda>k k'. \<exists>i. py_int k = Inr i \<and> k' = IntKey i) (map fst b) (map fst ps)"
proof (induction b arbitrary: ps)
  case Nil
  then show ?case by simp
next
  case (Cons p b)
  obtain k v where p: "p = (k, v)" by (cases p)
  from Cons.prems obtain i ps' where
    i: "py_int k = Inr i" and ps': "int_keys b = Inr ps'" and ps: "ps = (IntKey i, v) # ps'"
    by (auto simp: p split: sum.splits)
  from Cons.IH [OF ps'] i show ?case by (simp add: p ps)
qed

lemma int_keys_int_keyed: "list_all (\<lambda>(k, v). is_int_key k) b \<Longrightarrow> int_keys b = Inr b"
proof (induction b)
  case Nil
  then show ?case by simp
next
  case (Cons p b)
  obtain k v where p: "p = (k, v)" by (cases p)
  with Cons.prems obtain i where "k = IntKey i" by (cases k) auto
  with Cons show ?case by (simp add: p)
qed

lemma raw_loop_bad_bucket:
  "(n, b) \<in> set raw \<Longrightarrow> lower n \<noteq> ''groups'' \<Longrightarrow> int_keys b = Inl e \<Longrightarrow>
     raw_loop raw md = Inl ValueError"
proof (induction raw arbitrary: md)
  case Nil
  then show ?case by simp
next
  case (Cons p raw)
  obtain n' b' where p: "p = (n', b')" by (cases p)
  show ?case
  proof (cases "p = (n, b)")
    case True
    with Cons.prems int_keys_error [OF Cons.prems(3)] show ?thesis by simp
  next
    case False
    with Cons.prems have mem: "(n, b) \<in> set raw" by auto
    note IH = Cons.IH [OF mem Cons.prems(2,3)]
    show ?thesis
    proof (cases "int_keys b'")
      case (Inl e')
      with int_keys_error [OF Inl] IH show ?thesis by (simp add: p)
    next
      case (Inr ps)
      with IH show ?thesis by (simp add: p)
    qed
  qed
qed

lemma raw_loop_ok:
  "distinct (map fst md @ map fst raw) \<Longrightarrow>
   \<forall>(n, b) \<in> set raw. lower n \<noteq> ''groups'' \<longrightarrow> int_keys b = Inr (g b) \<Longrightarrow>
   raw_loop raw md =
     Inr (md @ map (\<lambda>(n, b). (n, py_dict (g b))) (filter (\<lambda>(n, b). lower n \<noteq> ''groups'') raw))"
proof (induction raw arbitrary: md)
  case Nil
  then show ?case by simp
next
  case (Cons p raw)
  obtain n b where p: "p = (n, b)" by (cases p)
  show ?case
  proof (cases "lower n \<noteq> ''groups''")
    case True
    with Cons.prems(2) have ok: "int_keys b = Inr (g b)" by (simp add: p)
    from Cons.prems(1) have fresh: "n \<notin> fst ` set md" by (auto simp: p)
    have d: "distinct (map fst (md @ [(n, py_dict (g b))]) @ map fst raw)"
      using Cons.prems(1) by (simp add: p)
    have rest: "\<forall>(n, b) \<in> set raw. lower n \<noteq> ''groups'' \<longrightarrow> int_keys b = Inr (g b)"
      using Cons.prems(2) by simp
    from Cons.IH [OF d rest] True ok show ?thesis
      by (simp add: p setitem_fresh [OF fresh])
  next
    case False
    have d: "distinct (map fst md @ map fst raw)" using Cons.prems(1) by (simp add: p)
    have rest: "\<forall>(n, b) \<in> set raw. lower n \<noteq> ''groups'' \<longrightarrow> int_keys b = Inr (g b)"
      using Cons.prems(2) by simp
    from Cons.IH [OF d rest] False show ?thesis by (simp add: p)
  qed
qed

lemma normalize_int_keyed:
  assumes r: "is_record raw" and k: "int_keyed raw"
  shows "convert_raw_data_to_mesh_data raw = Inr (without_groups raw)"
proof -
  have ok: "\<forall>(n, b) \<in> set raw. lower n \<noteq> ''groups'' \<longrightarrow> int_keys b = Inr b"
    using k by (auto simp: int_keyed_def list_all_iff is_groups_def intro!: int_keys_int_keyed)
  have d: "distinct (map fst ([] :: 'a mesh_data) @ map fst raw)"
    using r by (simp add: is_record_def is_dict_def)
  have "map (\<lambda>(n, b). (n, py_dict b)) (filter (\<lambda>(n, b). lower n \<noteq> ''groups'') raw)
        = filter (\<lambda>(n, b). lower n \<noteq> ''groups'') raw"
    using r by (intro map_idI) (auto simp: is_record_def is_dict_def list_all_iff py_dict_distinct)
  with raw_loop_ok [OF d ok] show ?thesis
    by (simp add: convert_raw_data_to_mesh_data_def without_groups_def is_groups_def)
qed

lemma is_record_without_groups: "is_record raw \<Longrightarrow> is_record (without_groups raw)"
  by (auto simp: is_record_def is_dict_def without_groups_def list_all_iff distinct_map_filter)

lemma int_keyed_without_groups: "int_keyed raw \<Longrightarrow> int_keyed (without_groups raw)"
  by (auto simp: int_keyed_def without_groups_def list_all_iff)

lemma without_groups_idem: "without_groups (without_groups raw) = without_groups raw"
  by (simp add: without_groups_def)



text \<open>
  C9: on a record whose buckets other than the group bucket have integer keys, the
  normalizer succeeds and returns each of these buckets with the same keys and
  values; normalizing the result again changes nothing. The group bucket is left out
  of the result.
\<close>

theorem int_keyed_record_accepted:
  assumes "is_record raw_mesh_data" and "int_keyed raw_mesh_data"
  shows "convert_raw_data_to_mesh_data raw_mesh_data = Inr (without_groups raw_mesh_data) \<and>
         convert_raw_data_to_mesh_data (without_groups raw_mesh_data)
           = Inr (without_groups raw_mesh_data)"
  using normalize_int_keyed [OF assms]
    normalize_int_keyed [OF is_record_without_groups [OF assms(1)]
                            int_keyed_without_groups [OF assms(2)]]
  by (simp add: without_groups_idem)

theorem int_keyed_record_accepted_witness:
  "is_record scenario_A_record \<and> int_keyed scenario_A_record \<and>
   convert_raw_data_to_mesh_data scenario_A_record = Inr (without_groups scenario_A_record) \<and>
   convert_raw_data_to_mesh_data (without_groups scenario_A_record)
     = Inr (without_groups scenario_A_record)"
proof -
  have r: "is_record scenario_A_record" by code_simp
  have k: "int_keyed scenario_A_record" by code_simp
  from int_keyed_record_accepted [OF r k] r k show ?thesis by simp
qed

lemma normalize_Inr:
  assumes d: "is_dict raw" and ok: "convert_raw_data_to_mesh_data raw = Inr out"
  shows "\<exists>g. (\<forall>(n, b) \<in> set raw. \<not> is_groups n \<longrightarrow> int_keys b = Inr (g b)) \<and>
             out = map (\<lambda>(n, b). (n, py_dict (g b))) (without_groups raw)"
proof -
  define g :: "'a bucket \<Rightarrow> 'a bucket" where "g b = projr (int_keys b)" for b
  have all: "\<forall>(n, b) \<in> set raw. lower n \<noteq> ''groups'' \<longrightarrow> int_keys b = Inr (g b)"
  proof (intro ballI, clarify)
    fix n b assume m: "(n, b) \<in> set raw" and n: "lower n \<noteq> ''groups''"
    show "int_keys b = Inr (g b)"
    proof (cases "int_keys b")
      case (Inl e)
      from raw_loop_bad_bucket [OF m n Inl, of "[]"] ok show ?thesis
        by (simp add: convert_raw_data_to_mesh_data_def)
    next
      case (Inr ps)
      then show ?thesis by (simp add: g_def)
    qed
  qed
  have "distinct (map fst ([] :: 'a mesh_data) @ map fst raw)"
    using d by (simp add: is_dict_def)
  from raw_loop_ok [OF this all] ok
  have "out = map (\<lambda>(n, b). (n, py_dict (g b))) (without_groups raw)"
    by (simp add: convert_raw_data_to_mesh_data_def without_groups_def is_groups_def)
  with all show ?thesis by (auto simp: is_groups_def)
qed

text \<open>
  C2, as the code has it: the normalizer skips every bucket whose name is \<open>groups\<close> in
  lower case, so its result has no group bucket at all. Every other bucket of the
  input appears under its own name, in the input's order, as \<open>dict\<close> of its entries
  with each key \<open>k\<close> replaced by the integer \<open>int(k)\<close> and the values as they were.
\<close>

theorem normalizer_omits_groups:
  assumes "is_dict raw_mesh_data"
    and "convert_raw_data_to_mesh_data raw_mesh_data = Inr mesh_data"
  shows "map fst mesh_data = filter (\<lambda>name. \<not> is_groups name) (map fst raw_mesh_data) \<and>
         (\<forall>name. is_groups name \<longrightarrow> map_of mesh_data name = None) \<and>
         (\<forall>(name, bucket) \<in> set raw_mesh_data. \<not> is_groups name \<longrightarrow>
            (\<exists>ps. map_of mesh_data name = Some (py_dict ps) \<and>
                  map snd ps = map snd bucket \<and>
                  list_all2 (\<lambda>k k'. \<exists>i. py_int k = Inr i \<and> k' = IntKey i)
                    (map fst bucket) (map fst ps)))"
proof -
  from normalize_Inr [OF assms] obtain g where
    g: "\<forall>(n, b) \<in> set raw_mesh_data. \<not> is_groups n \<longrightarrow> int_keys b = Inr (g b)" and
    out: "mesh_data = map (\<lambda>(n, b). (n, py_dict (g b))) (without_groups raw_mesh_data)"
    by blast
  have names: "map fst mesh_data = filter (\<lambda>name. \<not> is_groups name) (map fst raw_mesh_data)"
    by (simp add: out without_groups_def filter_map comp_def case_prod_unfold)
  have none: "map_of mesh_data name = None" if "is_groups name" for name
  proof -
    from that names have "name \<notin> set (map fst mesh_data)" by simp
    then show ?thesis by (simp add: map_of_eq_None_iff)
  qed
  have dist: "distinct (map fst mesh_data)"
    using assms(1) by (simp add: names is_dict_def)
  have some: "\<exists>ps. map_of mesh_data name = Some (py_dict ps) \<and>
                  map snd ps = map snd bucket \<and>
                  list_all2 (\<lambda>k k'. \<exists>i. py_int k = Inr i \<and> k' = IntKey i)
                    (map fst bucket) (map fst ps)"
    if m: "(name, bucket) \<in> set raw_mesh_data" and n: "\<not> is_groups name" for name bucket
  proof -
    from g m n have k: "int_keys bucket = Inr (g bucket)" by auto
    from m n have "(name, py_dict (g bucket)) \<in> set mesh_data"
      by (force simp: out without_groups_def)
    from map_of_is_SomeI [OF dist this] int_keys_Inr [OF k] show ?thesis by blast
  qed
  from names none some show ?thesis by blast
qed

text \<open>
  The claim as stated fails: the input has a group bucket, the result has none.
\<close>

theorem normalizer_omits_groups_counterexample:
  "convert_raw_data_to_mesh_data raw_example = Inr [(''Seg2Elem'', [(IntKey 1, ElementNodes [1, 2])])] \<and>
   map_of raw_example ''Groups'' = Some [(StrKey ''0'', GroupEntry ''Fixed'' [1])] \<and>
   map_of [(''Seg2Elem'', [(IntKey 1, ElementNodes [1, 2 :: int])])] ''Groups'' = (None :: real bucket_value bucket option)"
  by code_simp

theorem normalizer_omits_groups_witness:
  "is_dict raw_example \<and>
   convert_raw_data_to_mesh_data raw_example = Inr [(''Seg2Elem'', [(IntKey 1, ElementNodes [1, 2])])] \<and>
   map fst [(''Seg2Elem'', [(IntKey 1, ElementNodes [1, 2 :: int]) :: pykey \<times> real bucket_value])] = [''Seg2Elem'']"
proof -
  have d: "is_dict raw_example" by code_simp
  have c: "convert_raw_data_to_mesh_data raw_example = Inr [(''Seg2Elem'', [(IntKey 1, ElementNodes [1, 2])])]"
    by code_simp
  have f: "filter (\<lambda>name. \<not> is_groups name) (map fst raw_example) = [''Seg2Elem'']" by code_simp
  from normalizer_omits_groups [OF d c] d c f show ?thesis by simp
qed

section \<open>The converter\<close>

lemma len_to_edge_Some:
  "len_to_edge n = Some l \<longleftrightarrow> (n = 2 \<and> l = seg2) \<or> (n = 3 \<and> l = seg3)"
  by (auto simp: len_to_edge_def)

lemma len_to_face_Some:
  "len_to_face n = Some l \<longleftrightarrow>
     (n = 3 \<and> l = tri3) \<or> (n = 6 \<and> l = tri6) \<or> (n = 4 \<and> l = quad4) \<or> (n = 8 \<and> l = quad8)"
  by (auto simp: len_to_face_def)

lemma len_to_volume_Some:
  "len_to_volume n = Some l \<longleftrightarrow>
     (n = 4 \<and> l = tet4) \<or> (n = 10 \<and> l = tet10) \<or> (n = 8 \<and> l = hex8) \<or>
     (n = 20 \<and> l = hex20) \<or> (n = 6 \<and> l = pent6) \<or> (n = 15 \<and> l = pent15)"
  by (auto simp: len_to_volume_def)

lemma len_to_edge_None: "len_to_edge n = None \<longleftrightarrow> n \<notin> set [2, 3]"
  by (auto simp: len_to_edge_def)

lemma len_to_face_None: "len_to_face n = None \<longleftrightarrow> n \<notin> set [3, 4, 6, 8]"
  by (auto simp: len_to_face_def)

lemma len_to_volume_None: "len_to_volume n = None \<longleftrightarrow> n \<notin> set [4, 6, 8, 10, 15, 20]"
  by (auto simp: len_to_volume_def)

lemma analyze_ok:
  "\<forall>e \<in> set es. len_to (length (nodes_of e)) \<noteq> None \<Longrightarrow>
   analyze len_to nodes_of es store =
     Inr (\<lambda>l. store l @ map (\<lambda>e. (e, nodes_of e))
                           (filter (\<lambda>e. len_to (length (nodes_of e)) = Some l) es))"
proof (induction es arbitrary: store)
  case Nil
  then show ?case by simp
next
  case (Cons e es)
  from Cons.prems obtain l where l: "len_to (length (nodes_of e)) = Some l" by auto
  from Cons.prems have "\<forall>e \<in> set es. len_to (length (nodes_of e)) \<noteq> None" by simp
  from Cons.IH [OF this] l show ?case by (auto simp: Let_def fun_upd_def)
qed

lemma analyze_fail:
  "e \<in> set es \<Longrightarrow> len_to (length (nodes_of e)) = None \<Longrightarrow>
   analyze len_to nodes_of es store = Inl KeyError"
proof (induction es arbitrary: store)
  case Nil
  then show ?case by simp
next
  case (Cons x es)
  show ?case
  proof (cases "len_to (length (nodes_of x))")
    case None
    then show ?thesis by (simp add: Let_def)
  next
    case (Some l)
    with Cons.prems have "e \<in> set es" by auto
    from Cons.IH [OF this Cons.prems(2)] Some show ?thesis by (simp add: Let_def)
  qed
qed

lemma analyze_error: "analyze len_to nodes_of es store = Inl err \<Longrightarrow> err = KeyError"
  by (induction es arbitrary: store) (auto simp: Let_def split: option.splits)

lemma elem_dict_table:
  "elem_dict (map (\<lambda>e. (e, getElementNodes femmesh e))
                  (filter (\<lambda>e. length (getElementNodes femmesh e) = n) es))
   = table_bucket femmesh es n"
  by (simp add: elem_dict_def table_bucket_def comp_def)

lemma convert_supported:
  assumes "supported femmesh"
  shows "convert_femmesh_to_dict femmesh =
     Inr (build_mesh_data femmesh
       (\<lambda>l. map (\<lambda>e. (e, getElementNodes femmesh e))
                 (filter (\<lambda>e. len_to_edge (length (getElementNodes femmesh e)) = Some l)
                         (Edges femmesh)) @
             map (\<lambda>e. (e, getElementNodes femmesh e))
                 (filter (\<lambda>e. len_to_face (length (getElementNodes femmesh e)) = Some l)
                         (Faces femmesh)) @
             map (\<lambda>e. (e, getElementNodes femmesh e))
                 (filter (\<lambda>e. len_to_volume (length (getElementNodes femmesh e)) = Some l)
                         (Volumes femmesh))))"
proof -
  from assms have
    e: "\<forall>e \<in> set (Edges femmesh). len_to_edge (length (getElementNodes femmesh e)) \<noteq> None" and
    f: "\<forall>e \<in> set (Faces femmesh). len_to_face (length (getElementNodes femmesh e)) \<noteq> None" and
    v: "\<forall>e \<in> set (Volumes femmesh). len_to_volume (length (getElementNodes femmesh e)) \<noteq> None"
    by (simp_all add: supported_def list_all_iff len_to_edge_None len_to_face_None
          len_to_volume_None)
  show ?thesis
    by (simp add: convert_femmesh_to_dict_def analyze_ok [OF e] analyze_ok [OF f]
          analyze_ok [OF v])
qed

text \<open>
  C3: when every edge, face and volume has a node count the arity table lists, the
  converter returns the record whose element buckets hold, as pairs of element
  identifier and node tuple, exactly the elements of the category and node count the
  table gives for the bucket; the node coordinates and the groups are copied as they
  are.
\<close>

theorem convert_follows_table:
  assumes "supported femmesh"
  shows "convert_femmesh_to_dict femmesh = Inr
     [(''Nodes'', py_dict (map (\<lambda>(k, v). (IntKey k, Coordinates (vx v) (vy v) (vz v)))
                              (Nodes femmesh))),
      (''Seg2Elem'', table_bucket femmesh (Edges femmesh) 2),
      (''Seg3Elem'', table_bucket femmesh (Edges femmesh) 3),
      (''Tria3Elem'', table_bucket femmesh (Faces femmesh) 3),
      (''Tria6Elem'', table_bucket femmesh (Faces femmesh) 6),
      (''Quad4Elem'', table_bucket femmesh (Faces femmesh) 4),
      (''Quad8Elem'', table_bucket femmesh (Faces femmesh) 8),
      (''Tetra4Elem'', table_bucket femmesh (Volumes femmesh) 4),
      (''Tetra10Elem'', table_bucket femmesh (Volumes femmesh) 10),
      (''Hexa8Elem'', table_bucket femmesh (Volumes femmesh) 8),
      (''Hexa20Elem'', table_bucket femmesh (Volumes femmesh) 20),
      (''Penta6Elem'', table_bucket femmesh (Volumes femmesh) 6),
      (''Penta15Elem'', table_bucket femmesh (Volumes femmesh) 15),
      (''Groups'', py_dict (map (\<lambda>g. (IntKey g, GroupEntry (getGroupName femmesh g)
                                                          (getGroupElements femmesh g)))
                               (Groups femmesh)))]"
  by (simp add: convert_supported [OF assms] build_mesh_data_def len_to_edge_Some
        len_to_face_Some len_to_volume_Some elem_dict_table)

text \<open>Scenario A yields the record the spec states.\<close>

theorem convert_follows_table_witness:
  "supported scenario_A \<and> convert_femmesh_to_dict scenario_A = Inr scenario_A_record"
proof -
  have s: "supported scenario_A" by code_simp
  have "Inr
     [(''Nodes'', py_dict (map (\<lambda>(k, v). (IntKey k, Coordinates (vx v) (vy v) (vz v)))
                              (Nodes scenario_A))),
      (''Seg2Elem'', table_bucket scenario_A (Edges scenario_A) 2),
      (''Seg3Elem'', table_bucket scenario_A (Edges scenario_A) 3),
      (''Tria3Elem'', table_bucket scenario_A (Faces scenario_A) 3),
      (''Tria6Elem'', table_bucket scenario_A (Faces scenario_A) 6),
      (''Quad4Elem'', table_bucket scenario_A (Faces scenario_A) 4),
      (''Quad8Elem'', table_bucket scenario_A (Faces scenario_A) 8),
      (''Tetra4Elem'', table_bucket scenario_A (Volumes scenario_A) 4),
      (''Tetra10Elem'', table_bucket scenario_A (Volumes scenario_A) 10),
      (''Hexa8Elem'', table_bucket scenario_A (Volumes scenario_A) 8),
      (''Hexa20Elem'', table_bucket scenario_A (Volumes scenario_A) 20),
      (''Penta6Elem'', table_bucket scenario_A (Volumes scenario_A) 6),
      (''Penta15Elem'', table_bucket scenario_A (Volumes scenario_A) 15),
      (''Groups'', py_dict (map (\<lambda>g. (IntKey g, GroupEntry (getGroupName scenario_A g)
                                                          (getGroupElements scenario_A g)))
                               (Groups scenario_A)))]
    = (Inr scenario_A_record :: py_error + real bucket_value mesh_data)"
    by code_simp
  with convert_follows_table [OF s] s show ?thesis by simp
qed

lemma convert_unsupported:
  assumes "\<not> supported femmesh"
  shows "convert_femmesh_to_dict femmesh = Inl KeyError"
proof -
  let ?n = "getElementNodes femmesh"
  from assms consider
      (edge) e where "e \<in> set (Edges femmesh)" "len_to_edge (length (?n e)) = None"
    | (face) f where "f \<in> set (Faces femmesh)" "len_to_face (length (?n f)) = None"
    | (volume) v where "v \<in> set (Volumes femmesh)" "len_to_volume (length (?n v)) = None"
    unfolding supported_def list_all_iff len_to_edge_None len_to_face_None len_to_volume_None
    by blast
  then show ?thesis
  proof cases
    case edge
    from analyze_fail [where len_to = len_to_edge and nodes_of = "?n", OF edge] show ?thesis by (simp add: convert_femmesh_to_dict_def)
  next
    case face
    show ?thesis
    proof (cases "analyze len_to_edge ?n (Edges femmesh) (\<lambda>l. [])")
      case (Inl err)
      with analyze_error [OF Inl] show ?thesis by (simp add: convert_femmesh_to_dict_def)
    next
      case (Inr store1)
      with analyze_fail [where len_to = len_to_face and nodes_of = "?n", OF face, of store1] show ?thesis
        by (simp add: convert_femmesh_to_dict_def)
    qed
  next
    case volume
    show ?thesis
    proof (cases "analyze len_to_edge ?n (Edges femmesh) (\<lambda>l. [])")
      case (Inl err)
      with analyze_error [OF Inl] show ?thesis by (simp add: convert_femmesh_to_dict_def)
    next
      case store1: (Inr store1)
      show ?thesis
      proof (cases "analyze len_to_face ?n (Faces femmesh) store1")
        case (Inl err)
        with analyze_error [OF Inl] store1 show ?thesis
          by (simp add: convert_femmesh_to_dict_def)
      next
        case (Inr store2)
        with analyze_fail [where len_to = len_to_volume and nodes_of = "?n", OF volume, of store2] store1 show ?thesis
          by (simp add: convert_femmesh_to_dict_def)
      qed
    qed
  qed
qed

text \<open>
  C4: when some edge, face or volume has a node count the table does not list for
  its category, the converter raises \<open>KeyError\<close>; no record is returned, whatever the
  other elements are.
\<close>

theorem unsupported_arity_raises:
  assumes "e \<in> set (Edges femmesh) \<and> length (getElementNodes femmesh e) \<notin> {2, 3}
         \<or> e \<in> set (Faces femmesh) \<and> length (getElementNodes femmesh e) \<notin> {3, 4, 6, 8}
         \<or> e \<in> set (Volumes femmesh) \<and> length (getElementNodes femmesh e) \<notin> {4, 6, 8, 10, 15, 20}"
  shows "convert_femmesh_to_dict femmesh = Inl KeyError"
proof -
  from assms have "\<not> supported femmesh"
    by (auto simp: supported_def list_all_iff)
  then show ?thesis by (rule convert_unsupported)
qed

text \<open>Scenario E: the face 4 has five nodes.\<close>

theorem unsupported_arity_raises_witness:
  "4 \<in> set (Faces scenario_E) \<and> length (getElementNodes scenario_E 4) = 5 \<and>
   convert_femmesh_to_dict scenario_E = Inl KeyError"
proof -
  have m: "4 \<in> set (Faces scenario_E)" by code_simp
  have l: "length (getElementNodes scenario_E 4) = 5" by code_simp
  from l have "length (getElementNodes scenario_E 4) \<notin> {3, 4, 6, 8}" by simp
  with m unsupported_arity_raises [of 4 scenario_E] l show ?thesis by blast
qed

text \<open>
  C5: a record the converter returns has exactly the fourteen bucket names, each
  once: \<open>Nodes\<close>, the twelve element buckets and \<open>Groups\<close>.
\<close>

theorem record_has_fourteen_buckets:
  assumes "convert_femmesh_to_dict femmesh = Inr mesh_data"
  shows "map fst mesh_data =
     [''Nodes'', ''Seg2Elem'', ''Seg3Elem'', ''Tria3Elem'', ''Tria6Elem'', ''Quad4Elem'',
      ''Quad8Elem'', ''Tetra4Elem'', ''Tetra10Elem'', ''Hexa8Elem'', ''Hexa20Elem'',
      ''Penta6Elem'', ''Penta15Elem'', ''Groups'']"
proof -
  from assms obtain store where "mesh_data = build_mesh_data femmesh store"
    by (auto simp: convert_femmesh_to_dict_def split: sum.splits)
  then show ?thesis by (simp add: build_mesh_data_def)
qed

theorem record_has_fourteen_buckets_witness:
  "convert_femmesh_to_dict scenario_A = Inr scenario_A_record \<and>
   map fst scenario_A_record =
     [''Nodes'', ''Seg2Elem'', ''Seg3Elem'', ''Tria3Elem'', ''Tria6Elem'', ''Quad4Elem'',
      ''Quad8Elem'', ''Tetra4Elem'', ''Tetra10Elem'', ''Hexa8Elem'', ''Hexa20Elem'',
      ''Penta6Elem'', ''Penta15Elem'', ''Groups'']"
proof -
  have c: "convert_femmesh_to_dict scenario_A = Inr scenario_A_record" by code_simp
  from record_has_fourteen_buckets [OF c] c show ?thesis by simp
qed

section \<open>The round trip through a text codec\<close>

lemma py_int_render_key: "py_int (render_key style (IntKey i)) = Inr i"
  by (cases style) (simp_all add: parse_int_py_str)

lemma int_keys_render:
  "list_all (\<lambda>(k, v). is_int_key k) b \<Longrightarrow>
     int_keys (map (\<lambda>(k, v). (render_key style k, v)) b) = Inr b"
proof (induction b)
  case Nil
  then show ?case by simp
next
  case (Cons p b)
  obtain k v where p: "p = (k, v)" by (cases p)
  with Cons.prems obtain i where k: "k = IntKey i" by (cases k) auto
  from Cons show ?case by (simp add: p k py_int_render_key del: render_key.simps)
qed

lemma roundtrip_normalize:
  assumes r: "is_record r" and k: "int_keyed r"
  shows "convert_raw_data_to_mesh_data (text_roundtrip style r) = Inr (without_groups r)"
proof -
  let ?render = "map (\<lambda>(k, v). (render_key style k, v))"
  define g :: "'a bucket \<Rightarrow> 'a bucket" where "g b = projr (int_keys b)" for b
  have g: "g (?render b) = b" if "list_all (\<lambda>(k, v). is_int_key k) b" for b
    by (simp add: g_def int_keys_render [OF that])
  have names: "map fst (text_roundtrip style r) = map fst r"
    by (simp add: text_roundtrip_def comp_def case_prod_unfold)
  have d: "distinct (map fst ([] :: 'a mesh_data) @ map fst (text_roundtrip style r))"
    using r by (simp add: names is_record_def is_dict_def)
  have ok: "\<forall>(n, b) \<in> set (text_roundtrip style r).
              lower n \<noteq> ''groups'' \<longrightarrow> int_keys b = Inr (g b)"
    using k by (auto simp: text_roundtrip_def int_keyed_def list_all_iff is_groups_def g
                  int_keys_render)
  have A: "filter (\<lambda>(n, b). lower n \<noteq> ''groups'') (text_roundtrip style r)
           = map (\<lambda>(n, b). (n, ?render b)) (filter (\<lambda>(n, b). lower n \<noteq> ''groups'') r)"
    by (simp add: text_roundtrip_def filter_map comp_def case_prod_unfold)
  have B: "map (\<lambda>x. (fst x, py_dict (g (?render (snd x)))))
               (filter (\<lambda>(n, b). lower n \<noteq> ''groups'') r)
           = filter (\<lambda>(n, b). lower n \<noteq> ''groups'') r"
  proof (rule map_idI)
    fix x assume x: "x \<in> set (filter (\<lambda>(n, b). lower n \<noteq> ''groups'') r)"
    obtain n b where nb: "x = (n, b)" by (cases x)
    from x nb have m: "(n, b) \<in> set r" and n: "lower n \<noteq> ''groups''" by auto
    from k m n have "list_all (\<lambda>(k, v). is_int_key k) b"
      by (auto simp: int_keyed_def list_all_iff is_groups_def)
    moreover from r m have "distinct (map fst b)"
      by (auto simp: is_record_def is_dict_def list_all_iff)
    ultimately show "(fst x, py_dict (g (?render (snd x)))) = x"
      by (simp add: nb g py_dict_distinct)
  qed
  have "map (\<lambda>(n, b). (n, py_dict (g b)))
            (filter (\<lambda>(n, b). lower n \<noteq> ''groups'') (text_roundtrip style r))
        = filter (\<lambda>(n, b). lower n \<noteq> ''groups'') r"
    unfolding A map_map using B by (simp add: comp_def case_prod_unfold)
  with raw_loop_ok [OF d ok] show ?thesis
    by (simp add: convert_raw_data_to_mesh_data_def without_groups_def is_groups_def)
qed

lemma int_keys_py_dict:
  "list_all (\<lambda>(k, v). is_int_key k) ps \<Longrightarrow> list_all (\<lambda>(k, v). is_int_key k) (py_dict ps)"
proof -
  assume a: "list_all (\<lambda>(k, v). is_int_key k) ps"
  have "\<forall>k \<in> fst ` set (py_dict ps). is_int_key k"
    using a by (auto simp: set_fst_py_dict list_all_iff)
  then show ?thesis by (auto simp: list_all_iff)
qed

lemma build_mesh_data_record: "is_record (build_mesh_data femmesh store)"
  by (simp add: is_record_def is_dict_def build_mesh_data_def elem_dict_def distinct_py_dict)

lemma build_mesh_data_int_keyed: "int_keyed (build_mesh_data femmesh store)"
  by (simp add: int_keyed_def build_mesh_data_def elem_dict_def)
     (intro conjI disjI2 int_keys_py_dict; simp add: list_all_iff case_prod_unfold)

lemma convert_Inr_build:
  "convert_femmesh_to_dict femmesh = Inr mesh_data \<Longrightarrow>
     \<exists>store. mesh_data = build_mesh_data femmesh store"
  by (auto simp: convert_femmesh_to_dict_def split: sum.splits)

lemma without_groups_build:
  "map fst (without_groups (build_mesh_data femmesh store)) =
     [''Nodes'', ''Seg2Elem'', ''Seg3Elem'', ''Tria3Elem'', ''Tria6Elem'', ''Quad4Elem'',
      ''Quad8Elem'', ''Tetra4Elem'', ''Tetra10Elem'', ''Hexa8Elem'', ''Hexa20Elem'',
      ''Penta6Elem'', ''Penta15Elem'']"
proof -
  have "filter (\<lambda>n. \<not> is_groups n)
     [''Nodes'', ''Seg2Elem'', ''Seg3Elem'', ''Tria3Elem'', ''Tria6Elem'', ''Quad4Elem'',
      ''Quad8Elem'', ''Tetra4Elem'', ''Tetra10Elem'', ''Hexa8Elem'', ''Hexa20Elem'',
      ''Penta6Elem'', ''Penta15Elem'', ''Groups''] =
     [''Nodes'', ''Seg2Elem'', ''Seg3Elem'', ''Tria3Elem'', ''Tria6Elem'', ''Quad4Elem'',
      ''Quad8Elem'', ''Tetra4Elem'', ''Tetra10Elem'', ''Hexa8Elem'', ''Hexa20Elem'',
      ''Penta6Elem'', ''Penta15Elem'']"
    by code_simp
  moreover have "map fst (without_groups m) = filter (\<lambda>n. \<not> is_groups n) (map fst m)"
    for m :: "'a bucket_value mesh_data"
    by (simp add: without_groups_def filter_map comp_def case_prod_unfold)
  ultimately show ?thesis by (simp add: build_mesh_data_def)
qed

text \<open>
  C1, as the code has it: for a mesh the converter accepts, normalizing what a text
  codec gives back for the converter's record (keys as strings, or integer keys kept)
  yields that record with every bucket but the group bucket restored, keys and values
  alike; the group bucket is missing from the result.
\<close>

theorem roundtrip_restores_all_but_groups:
  assumes "convert_femmesh_to_dict femmesh = Inr mesh_data"
  shows "convert_raw_data_to_mesh_data (text_roundtrip style mesh_data)
           = Inr (without_groups mesh_data) \<and>
         map fst (without_groups mesh_data) =
           [''Nodes'', ''Seg2Elem'', ''Seg3Elem'', ''Tria3Elem'', ''Tria6Elem'', ''Quad4Elem'',
            ''Quad8Elem'', ''Tetra4Elem'', ''Tetra10Elem'', ''Hexa8Elem'', ''Hexa20Elem'',
            ''Penta6Elem'', ''Penta15Elem'']"
proof -
  from convert_Inr_build [OF assms] obtain store where
    m: "mesh_data = build_mesh_data femmesh store" by blast
  show ?thesis
    unfolding m
    using roundtrip_normalize [OF build_mesh_data_record build_mesh_data_int_keyed]
      without_groups_build by blast
qed

text \<open>
  The claim as stated fails on Scenario A: the round trip returns thirteen buckets,
  and a record without \<open>Groups\<close> is not equal, up to key type, to the converter's
  record.
\<close>

theorem roundtrip_counterexample:
  "convert_femmesh_to_dict scenario_A = Inr scenario_A_record \<and>
   convert_raw_data_to_mesh_data (text_roundtrip AsString scenario_A_record)
     = Inr (without_groups scenario_A_record) \<and>
   \<not> equal_up_to_key_type (without_groups scenario_A_record) scenario_A_record"
proof -
  have "convert_femmesh_to_dict scenario_A = Inr scenario_A_record" by code_simp
  moreover have "convert_raw_data_to_mesh_data (text_roundtrip AsString scenario_A_record)
     = Inr (without_groups scenario_A_record)" by code_simp
  moreover have "\<not> equal_up_to_key_type (without_groups scenario_A_record) scenario_A_record"
    by code_simp
  ultimately show ?thesis by blast
qed

theorem roundtrip_restores_all_but_groups_witness:
  "convert_femmesh_to_dict scenario_A = Inr scenario_A_record \<and>
   convert_raw_data_to_mesh_data (text_roundtrip AsString scenario_A_record)
     = Inr (without_groups scenario_A_record) \<and>
   convert_raw_data_to_mesh_data (text_roundtrip AsInteger scenario_A_record)
     = Inr (without_groups scenario_A_record)"
proof -
  have c: "convert_femmesh_to_dict scenario_A = Inr scenario_A_record" by code_simp
  from roundtrip_restores_all_but_groups [OF c, of AsString]
    roundtrip_restores_all_but_groups [OF c, of AsInteger] c
  show ?thesis by blast
qed

section \<open>The entry points\<close>

text \<open>
  C6: when the list of objects does not hold exactly one object, or its one object
  is not derived from \<open>Fem::FemMeshObject\<close>, \<open>export\<close> returns normally after one
  \<open>PrintError\<close>; no file is written and the document is untouched.
\<close>

theorem export_rejects_selection:
  assumes "length objectslist \<noteq> 1 \<or>
           (length objectslist = 1 \<and> \<not> isDerivedFrom (hd objectslist) ''Fem::FemMeshObject'')"
  shows "\<exists>w' text. export env objectslist fileString w = Inr w' \<and>
           console w' = console w @ [PrintError text] \<and>
           files w' = files w \<and> document w' = document w"
  using assms by (auto simp: export_def Let_def)

text \<open>No object, two objects, and one object of another kind.\<close>

theorem export_rejects_selection_witness:
  "(\<exists>w' text. export easy_env ([] :: real fem_object list) ''out.json'' new_world = Inr w' \<and>
      console w' = console new_world @ [PrintError text] \<and>
      files w' = files new_world \<and> document w' = document new_world) \<and>
   (\<exists>w' text. export easy_env [mesh_object scenario_A, mesh_object scenario_A] ''out.json''
        new_world = Inr w' \<and>
      console w' = console new_world @ [PrintError text] \<and>
      files w' = files new_world \<and> document w' = document new_world) \<and>
   (\<exists>w' text. export easy_env [part_object scenario_A] ''out.json'' new_world = Inr w' \<and>
      console w' = console new_world @ [PrintError text] \<and>
      files w' = files new_world \<and> document w' = document new_world)"
proof -
  have zero: "length ([] :: real fem_object list) \<noteq> 1" by simp
  have two: "length [mesh_object scenario_A, mesh_object scenario_A] \<noteq> 1" by simp
  have part: "length [part_object scenario_A] = 1 \<and>
              \<not> isDerivedFrom (hd [part_object scenario_A]) ''Fem::FemMeshObject''"
    by (simp add: part_object_def)
  from export_rejects_selection [OF disjI1 [OF zero], of easy_env "''out.json''" new_world]
    export_rejects_selection [OF disjI1 [OF two], of easy_env "''out.json''" new_world]
    export_rejects_selection [OF disjI2 [OF part], of easy_env "''out.json''" new_world]
  show ?thesis by blast
qed

text \<open>
  C10, as the code has it: with exactly one mesh-carrying object and the empty path,
  \<open>export\<close> converts the mesh first. When every element has a listed node count it
  then returns with nothing written and nothing printed; when one has not, the
  \<open>KeyError\<close> of the conversion leaves \<open>export\<close>.
\<close>

theorem export_empty_path:
  assumes "length objectslist = 1"
    and "isDerivedFrom (hd objectslist) ''Fem::FemMeshObject''"
  shows "(supported (FemMesh (hd objectslist)) \<longrightarrow> export env objectslist [] w = Inr w) \<and>
         (\<not> supported (FemMesh (hd objectslist)) \<longrightarrow>
            export env objectslist [] w = Inl KeyError)"
  using assms
  by (auto simp: export_def Let_def convert_supported convert_unsupported)

text \<open>
  The claim as stated fails on Scenario E: one mesh-carrying object, the empty path,
  and an exception.
\<close>

theorem export_empty_path_counterexample:
  "length [mesh_object scenario_E] = 1 \<and>
   isDerivedFrom (hd [mesh_object scenario_E]) ''Fem::FemMeshObject'' \<and>
   export easy_env [mesh_object scenario_E] [] new_world = Inl KeyError"
  by code_simp

theorem export_empty_path_witness:
  "supported scenario_A \<and> \<not> supported scenario_E \<and>
   export easy_env [mesh_object scenario_A] [] new_world = Inr new_world \<and>
   export easy_env [mesh_object scenario_E] [] new_world = Inl KeyError"
proof -
  have a: "supported scenario_A" by code_simp
  have e: "\<not> supported scenario_E" by code_simp
  have l: "length [mesh_object m] = 1" for m :: "real femmesh" by simp
  have d: "isDerivedFrom (hd [mesh_object m]) ''Fem::FemMeshObject''" for m :: "real femmesh"
    by (simp add: mesh_object_def)
  from export_empty_path [OF l d, of scenario_A easy_env new_world]
    export_empty_path [OF l d, of scenario_E easy_env new_world] a e
  show ?thesis by (simp add: mesh_object_def)
qed

text \<open>
  An unknown extension: the branch that prints the error has no \<open>return\<close>, unlike the
  two error branches of \<open>export\<close>. The function goes on with the empty record: it
  prints its two progress messages, normalizes, calls \<open>make_femmesh\<close> and adds an
  object to the document whenever the result is true.
\<close>

lemma import_unknown_extension:
  assumes "lower (snd (splitext (snd (path_split fileString)))) \<notin> {''.json'', ''.yaml'', ''.yml''}"
  shows "import_yaml_json_mesh env fileString w =
     (let w3 = w\<lparr>console := console w @
                   [PrintError (''Unknown extension, please select other importer.'' @ [newline]),
                    PrintMessage ''Converting indices to integer numbers ...'',
                    PrintMessage (''OK'' @ [newline])]\<rparr>
      in case make_femmesh env [] of
           Inl e \<Rightarrow> Inl e
         | Inr None \<Rightarrow> Inr w3
         | Inr (Some femmesh) \<Rightarrow>
             Inr (w3\<lparr>document := document w3 @
                       [(''Fem::FemMeshObject'', fst (splitext (snd (path_split fileString))),
                         femmesh)]\<rparr>))"
  using assms
  by (auto simp: import_yaml_json_mesh_def Let_def convert_raw_data_to_mesh_data_def
        case_prod_unfold split: sum.splits option.splits)

text \<open>
  C7 fails on the code: importing \<open>mesh.xyz\<close>, with a \<open>make_femmesh\<close> that returns a
  mesh for the empty record, reports the error and still creates the object \<open>mesh\<close>.
\<close>

theorem import_unknown_extension_still_builds:
  "import_yaml_json_mesh easy_env ''mesh.xyz'' new_world =
     Inr \<lparr>console =
            [PrintError (''Unknown extension, please select other importer.'' @ [newline]),
             PrintMessage ''Converting indices to integer numbers ...'',
             PrintMessage (''OK'' @ [newline])],
          files = [],
          document = [(''Fem::FemMeshObject'', ''mesh'', 0)]\<rparr>"
  by code_simp

end
